theory Spec2Isabelle
  imports Main "HOL-Library.Word"
begin

unbundle bit_operations_syntax

section \<open>Data model of EntityHighlighter.tsx\<close>

text \<open>
  A JavaScript string is a sequence of UTF-16 code units; \<open>length\<close> and \<open>charCodeAt\<close>
  count and read code units. String literals of the source are ASCII and are written
  through \<open>ascii\<close>. JavaScript numbers that hold offsets, lengths and differences of
  them are integers far below \<open>2 ^ 53\<close>, where double arithmetic is exact: they are \<open>int\<close>.
\<close>

type_synonym code_unit = "16 word"
type_synonym js_string = "code_unit list"

definition ascii :: "string \<Rightarrow> js_string" where
  "ascii s = map of_char s"

definition charCodeAt :: "code_unit \<Rightarrow> int" where
  "charCodeAt c = uint c"

text \<open>
  Modelled from the spec: the type \<open>Entity\<close> is imported from \<open>./App\<close>, which is not among
  the sources; the spec's data model gives it as \<open>{start: integer, end: integer, label: string}\<close>.
  (\<open>end\<close> is a keyword of Isabelle, hence the prefixed field names.)
\<close>

record Entity =
  e_start :: int
  e_end :: int
  e_label :: js_string

text \<open>\<open>class Range { constructor(public start: number, public end: number) {} }\<close>\<close>

record Range =
  r_start :: int
  r_end :: int

text \<open>\<open>class TextNode { constructor(public text: string, public color?: string) {} }\<close>\<close>

record TextNode =
  node_text :: js_string
  node_color :: js_string

record PaletteEntry =
  name :: js_string
  bg :: js_string

definition colors :: "PaletteEntry list" where
  "colors =
    [\<lparr>name = ascii ''blue'', bg = ascii ''#0074d9''\<rparr>,
     \<lparr>name = ascii ''navy'', bg = ascii ''#001f3f''\<rparr>,
     \<lparr>name = ascii ''lime'', bg = ascii ''#01ff70''\<rparr>,
     \<lparr>name = ascii ''teal'', bg = ascii ''#39cccc''\<rparr>,
     \<lparr>name = ascii ''olive'', bg = ascii ''#3d9970''\<rparr>,
     \<lparr>name = ascii ''fuchsia'', bg = ascii ''#f012be''\<rparr>,
     \<lparr>name = ascii ''red'', bg = ascii ''#ff4136''\<rparr>,
     \<lparr>name = ascii ''green'', bg = ascii ''#2ecc40''\<rparr>,
     \<lparr>name = ascii ''orange'', bg = ascii ''#ff851b''\<rparr>,
     \<lparr>name = ascii ''maroon'', bg = ascii ''#85144b''\<rparr>,
     \<lparr>name = ascii ''purple'', bg = ascii ''#b10dc9''\<rparr>,
     \<lparr>name = ascii ''yellow'', bg = ascii ''#ffdc00''\<rparr>,
     \<lparr>name = ascii ''aqua'', bg = ascii ''#7fdbff''\<rparr>]"

text \<open>
  The component: its props (the \<open>onChange\<close> callback is modelled by returning the pair of
  arguments it is called with), its React state, the text area it holds, and the two
  instance fields that remember the selection seen by the last selection event.
\<close>

record Props =
  "text" :: js_string
  entities :: "Entity list"

record State =
  entityLabelInputText :: js_string
  cursorPosition :: int

record HTMLTextAreaElement =
  target_value :: js_string
  target_selectionStart :: int
  target_selectionEnd :: int

record EntityHighlighter =
  props :: Props
  state :: State
  inputNode :: HTMLTextAreaElement
  selectionStart :: int
  selectionEnd :: int

text \<open>What the source can throw.\<close>

datatype js_error = RangeError | TypeError

section \<open>JavaScript library functions the source calls\<close>

text \<open>
  \<open>ToInt32\<close>, the conversion every bitwise operator applies to its operands and that
  gives its result: the integer modulo \<open>2 ^ 32\<close>, read as two's complement.
\<close>

definition toInt32 :: "int \<Rightarrow> int" where
  "toInt32 x = signed_take_bit 31 x"

text \<open>\<open>a << n\<close> and \<open>a & b\<close> on numbers.\<close>

definition js_shl :: "int \<Rightarrow> nat \<Rightarrow> int" where
  "js_shl a n = toInt32 (push_bit (n mod 32) (toInt32 a))"

definition js_and :: "int \<Rightarrow> int \<Rightarrow> int" where
  "js_and a b = toInt32 (toInt32 a AND toInt32 b)"

text \<open>\<open>a % b\<close>: the remainder takes the sign of the dividend.\<close>

definition js_rem :: "int \<Rightarrow> int \<Rightarrow> int" where
  "js_rem a b = sgn a * (\<bar>a\<bar> mod \<bar>b\<bar>)"

text \<open>\<open>xs[i]\<close>: \<open>undefined\<close> (here \<open>None\<close>) outside the array.\<close>

definition js_index :: "'a list \<Rightarrow> int \<Rightarrow> 'a option" where
  "js_index xs i = (if 0 \<le> i \<and> i < int (length xs) then Some (xs ! nat i) else None)"

text \<open>
  \<open>Array.prototype.slice(begin, end)\<close> and \<open>slice(begin)\<close>: a negative index counts from
  the end of the array, and both indices are clamped to the array.
\<close>

definition slice_index :: "nat \<Rightarrow> int \<Rightarrow> nat" where
  "slice_index len i = (if i < 0 then nat (max (int len + i) 0) else min (nat i) len)"

definition slice :: "'a list \<Rightarrow> int \<Rightarrow> int \<Rightarrow> 'a list" where
  "slice xs b e =
    (let k = slice_index (length xs) b; final = slice_index (length xs) e
     in take (final - k) (drop k xs))"

definition slice_from :: "'a list \<Rightarrow> int \<Rightarrow> 'a list" where
  "slice_from xs b = drop (slice_index (length xs) b) xs"

text \<open>\<open>Array.prototype.findIndex\<close>: the index of the first element that satisfies the
  predicate, \<open>-1\<close> when there is none.\<close>

fun findIndex_from :: "('a \<Rightarrow> bool) \<Rightarrow> 'a list \<Rightarrow> int \<Rightarrow> int" where
  "findIndex_from p [] i = -1"
| "findIndex_from p (x # xs) i = (if p x then i else findIndex_from p xs (i + 1))"

definition findIndex :: "('a \<Rightarrow> bool) \<Rightarrow> 'a list \<Rightarrow> int" where
  "findIndex p xs = findIndex_from p xs 0"

text \<open>
  \<open>String.prototype.substring(start, end)\<close>: both arguments are clamped to the string
  and swapped when the first is the larger.
\<close>

definition substring :: "js_string \<Rightarrow> int \<Rightarrow> int \<Rightarrow> js_string" where
  "substring s a b =
    (let len = int (length s);
         finalStart = min (max a 0) len;
         finalEnd = min (max b 0) len;
         from = min finalStart finalEnd;
         to = max finalStart finalEnd
     in take (nat (to - from)) (drop (nat from) s))"

text \<open>\<open>xs.map(f)\<close> where \<open>f\<close> may throw: the first exception ends the call.\<close>

fun map_throwing :: "('a \<Rightarrow> js_error + 'b) \<Rightarrow> 'a list \<Rightarrow> js_error + 'b list" where
  "map_throwing f [] = Inr []"
| "map_throwing f (x # xs) =
    (case f x of
       Inl err \<Rightarrow> Inl err
     | Inr y \<Rightarrow> (case map_throwing f xs of Inl err \<Rightarrow> Inl err | Inr ys \<Rightarrow> Inr (y # ys)))"

section \<open>The functions of the source\<close>

text \<open>
  \<open>hashString\<close>: the loop over the code units of the string, with the source's
  \<open>hash = (hash << 5) - hash + char; hash &= hash\<close> as the step.
\<close>

definition hash_step :: "int \<Rightarrow> code_unit \<Rightarrow> int" where
  "hash_step hash c =
    (let char = charCodeAt c;
         hash1 = js_shl hash 5 - hash + char
     in js_and hash1 hash1)"

definition hashString :: "js_string \<Rightarrow> int" where
  "hashString str =
    (if length str = 0 then 0
     else (let hash = foldl hash_step 0 str in if hash > 0 then hash else - hash))"

definition entityIsInsideRange :: "Entity \<Rightarrow> Range \<Rightarrow> bool" where
  "entityIsInsideRange entity rng \<longleftrightarrow>
    (e_start entity \<ge> r_start rng \<and> e_end entity < r_end rng) \<or>
    (e_start entity > r_start rng \<and> e_end entity \<le> r_end rng)"

definition entityOverlapsWithRange :: "Entity \<Rightarrow> Range \<Rightarrow> bool" where
  "entityOverlapsWithRange entity rng \<longleftrightarrow>
    (e_start entity < r_start rng \<and> e_end entity > r_start rng \<and> e_end entity \<le> r_end rng) \<or>
    (e_start entity \<ge> r_start rng \<and> e_start entity < r_end rng \<and> e_end entity > r_end rng)"

definition entityIsBeforeRange :: "Entity \<Rightarrow> Range \<Rightarrow> bool" where
  "entityIsBeforeRange entity rng \<longleftrightarrow>
    e_start entity < r_start rng \<and> e_end entity \<le> r_start rng"

definition entityIsBeyondRange :: "Entity \<Rightarrow> Range \<Rightarrow> bool" where
  "entityIsBeyondRange entity rng \<longleftrightarrow>
    e_start entity \<ge> r_end rng \<and> e_start entity > r_start rng"

definition rangeIsInsideEntity :: "Entity \<Rightarrow> Range \<Rightarrow> bool" where
  "rangeIsInsideEntity entity rng \<longleftrightarrow>
    e_start entity \<le> r_start rng \<and> e_end entity \<ge> r_end rng"

subsection \<open>textChange\<close>

text \<open>
  The first half of \<open>textChange\<close>: \<open>textSizeDiff\<close> and the local \<open>originalRange\<close>, the range
  of the old text that the edit replaced, computed from the selection remembered in the
  instance fields and the selection the text area reports now. The second argument is
  \<open>event.target\<close>, from which the handler reads the new text; the new selection is read
  from \<open>this.inputNode\<close>.
\<close>

definition textSizeDiff :: "EntityHighlighter \<Rightarrow> HTMLTextAreaElement \<Rightarrow> int" where
  "textSizeDiff this target =
    (let newText = target_value target;
         oldText = text (props this)
     in int (length newText) - int (length oldText))"

definition originalRange :: "EntityHighlighter \<Rightarrow> HTMLTextAreaElement \<Rightarrow> Range" where
  "originalRange this target =
    (let previousSelectionEnd = selectionEnd this;
         previousSelectionStart = selectionStart this;
         previousSelectionSize = previousSelectionEnd - previousSelectionStart;
         newSelectionStart = target_selectionStart (inputNode this);
         newSelectionEnd = target_selectionEnd (inputNode this);
         textSizeDiff = textSizeDiff this target;
         deletedBeforeCursor =
           (previousSelectionSize = 0 \<and> textSizeDiff < 0 \<and> newSelectionEnd < previousSelectionEnd);
         deletedAfterCursor =
           (previousSelectionSize = 0 \<and> textSizeDiff < 0 \<and> newSelectionEnd = previousSelectionEnd)
     in if deletedAfterCursor \<or> deletedBeforeCursor
        then \<lparr>r_start = newSelectionStart, r_end = newSelectionStart - textSizeDiff\<rparr>
        else \<lparr>r_start = previousSelectionStart, r_end = previousSelectionEnd\<rparr>)"

text \<open>
  The local \<open>brokenEntities\<close> of \<open>textChange\<close>. The handler only counts it, for the
  console line \<open>Removing n broken entities.\<close>
\<close>

definition brokenEntities :: "EntityHighlighter \<Rightarrow> HTMLTextAreaElement \<Rightarrow> Entity list" where
  "brokenEntities this target =
    filter (\<lambda>entity. entityOverlapsWithRange entity (originalRange this target)
              \<or> entityIsInsideRange entity (originalRange this target)) (entities (props this))"

text \<open>The whole handler. The result is the pair \<open>onChange\<close> is called with.\<close>

definition textChange :: "EntityHighlighter \<Rightarrow> HTMLTextAreaElement \<Rightarrow> js_string \<times> Entity list" where
  "textChange this target =
    (let newText = target_value target;
         textSizeDiff = textSizeDiff this target;
         originalRange = originalRange this target;
         brokenEntities = brokenEntities this target;
         unchangedEntities = filter (\<lambda>entity. entityIsBeforeRange entity originalRange)
                               (entities (props this));
         modifiedEntities =
           map (\<lambda>entity. entity\<lparr>e_end := e_end entity + textSizeDiff\<rparr>)
             (filter (\<lambda>entity. rangeIsInsideEntity entity originalRange) (entities (props this)));
         shiftedEntities =
           map (\<lambda>entity. entity\<lparr>e_start := e_start entity + textSizeDiff,
                                 e_end := e_end entity + textSizeDiff\<rparr>)
             (filter (\<lambda>entity. entityIsBeyondRange entity originalRange) (entities (props this)));
         newEntities = filter (\<lambda>entity. e_end entity > e_start entity)
                         (unchangedEntities @ modifiedEntities @ shiftedEntities)
     in (newText, newEntities))"

subsection \<open>Segmentation\<close>

text \<open>
  \<open>getRanges\<close> recurses on \<open>bounds.slice(1)\<close> until two bounds are left. Called with fewer
  than two bounds it never reaches its base case (the empty array is its own
  \<open>slice(1)\<close>), and the engine ends the recursion with a \<open>RangeError\<close>.
\<close>

fun getRanges :: "int list \<Rightarrow> Range list \<Rightarrow> js_error + Range list" where
  "getRanges [b0, b1] accumulator =
    Inr (filter (\<lambda>range. r_end range > r_start range)
          (accumulator @ [\<lparr>r_start = b0, r_end = b1\<rparr>]))"
| "getRanges (b0 # b1 # bounds) accumulator =
    getRanges (b1 # bounds) (accumulator @ [\<lparr>r_start = b0, r_end = b1\<rparr>])"
| "getRanges bounds accumulator = Inl RangeError"

definition rangeBelongsToEntities :: "Entity list \<Rightarrow> Range \<Rightarrow> Entity list" where
  "rangeBelongsToEntities ents rng = filter (\<lambda>entity. rangeIsInsideEntity entity rng) ents"

definition mixColorsMock :: js_string where
  "mixColorsMock = ascii ''#00ff00''"

text \<open>\<open>colors[i].bg\<close> throws a \<open>TypeError\<close> when \<open>colors[i]\<close> is \<open>undefined\<close>.\<close>

definition getTextNodeColor :: "Entity list \<Rightarrow> js_error + js_string" where
  "getTextNodeColor entitiesInRange =
    (case entitiesInRange of
       [] \<Rightarrow> Inr (ascii '''')
     | [entity] \<Rightarrow>
         (case js_index colors (js_rem (hashString (e_label entity)) (int (length colors))) of
            None \<Rightarrow> Inl TypeError
          | Some c \<Rightarrow> Inr (bg c))
     | _ \<Rightarrow> Inr mixColorsMock)"

text \<open>The locals \<open>bounds\<close> and \<open>ranges\<close> of \<open>getTextNodes\<close>, and the function itself.\<close>

definition bounds :: "Entity list \<Rightarrow> int list" where
  "bounds ents = sort (concat (map (\<lambda>entity. [e_start entity, e_end entity]) ents))"

definition ranges :: "js_string \<Rightarrow> Entity list \<Rightarrow> js_error + Range list" where
  "ranges txt ents = getRanges ([0] @ bounds ents @ [int (length txt)]) []"

definition getTextNodes :: "js_string \<Rightarrow> Entity list \<Rightarrow> js_error + TextNode list" where
  "getTextNodes txt ents =
    (case ranges txt ents of
       Inl err \<Rightarrow> Inl err
     | Inr rs \<Rightarrow>
         map_throwing (\<lambda>range.
           let entitiesInRange = rangeBelongsToEntities ents range
           in case getTextNodeColor entitiesInRange of
                Inl err \<Rightarrow> Inl err
              | Inr color \<Rightarrow>
                  Inr \<lparr>node_text = substring txt (r_start range) (r_end range),
                       node_color = color\<rparr>) rs)"

subsection \<open>Entity commands\<close>

definition deleteEntity :: "EntityHighlighter \<Rightarrow> Entity \<Rightarrow> js_string \<times> Entity list" where
  "deleteEntity this entity =
    (let ents = entities (props this);
         deleted = findIndex (\<lambda>e. e_start e = e_start entity \<and> e_end e = e_end entity
                                   \<and> e_label e = e_label entity) ents
     in (text (props this), slice ents 0 deleted @ slice_from ents (deleted + 1)))"

definition addEntity :: "EntityHighlighter \<Rightarrow> js_string \<times> Entity list" where
  "addEntity this =
    (let newEntity = \<lparr>e_start = selectionStart this, e_end = selectionEnd this,
                      e_label = entityLabelInputText (state this)\<rparr>
     in (text (props this), entities (props this) @ [newEntity]))"

section \<open>Specification-side definitions\<close>

text \<open>
  The match of \<open>deleteEntity\<close> in the spec's words: the \<open>(start, end, label)\<close> triple of
  a span equals the triple of the target.
\<close>

definition same_entity :: "Entity \<Rightarrow> Entity \<Rightarrow> bool" where
  "same_entity entity e \<longleftrightarrow>
     e_start e = e_start entity \<and> e_end e = e_end entity \<and> e_label e = e_label entity"

text \<open>
  The hash in the spec's words: a 32-bit signed accumulation \<open>hash = hash * 31 + charCode\<close>,
  folded to a non-negative value.
\<close>

definition hashString_spec :: "js_string \<Rightarrow> int" where
  "hashString_spec str = \<bar>sint (foldl (\<lambda>hash c. hash * 31 + ucast c) (0 :: 32 word) str)\<bar>"

text \<open>The span invariant of the data model, for a text of the given length.\<close>

definition valid_span :: "int \<Rightarrow> Entity \<Rightarrow> bool" where
  "valid_span len e \<longleftrightarrow> 0 \<le> e_start e \<and> e_start e < e_end e \<and> e_end e \<le> len"

text \<open>
  Concrete inputs for the scenarios: a span with an ASCII label, a text area with an
  ASCII value and a selection, and a component with an ASCII text, a span list, the
  remembered selection and its text area.
\<close>

definition span :: "int \<Rightarrow> int \<Rightarrow> string \<Rightarrow> Entity" where
  "span s e l = \<lparr>e_start = s, e_end = e, e_label = ascii l\<rparr>"

definition textarea :: "string \<Rightarrow> int \<Rightarrow> int \<Rightarrow> HTMLTextAreaElement" where
  "textarea v s e = \<lparr>target_value = ascii v, target_selectionStart = s, target_selectionEnd = e\<rparr>"

definition component ::
  "string \<Rightarrow> Entity list \<Rightarrow> int \<Rightarrow> int \<Rightarrow> HTMLTextAreaElement \<Rightarrow> EntityHighlighter" where
  "component txt es s e node =
    \<lparr>props = \<lparr>text = ascii txt, entities = es\<rparr>,
     state = \<lparr>entityLabelInputText = ascii '''', cursorPosition = s\<rparr>,
     inputNode = node, selectionStart = s, selectionEnd = e\<rparr>"

text \<open>
  The ranges \<open>getRanges\<close> accumulates before its final filter: one for every two
  neighbouring bounds.
\<close>

fun neighbours :: "int list \<Rightarrow> Range list" where
  "neighbours (b0 # b1 # bs) = \<lparr>r_start = b0, r_end = b1\<rparr> # neighbours (b1 # bs)"
| "neighbours bs = []"

text \<open>An offset clamped to a string of the given length, as \<open>substring\<close> does.\<close>

definition clamp :: "int \<Rightarrow> int \<Rightarrow> int" where
  "clamp len x = min (max x 0) len"

text \<open>The text between two offsets of a string, for \<open>0 \<le> i \<le> j\<close>.\<close>

definition between :: "js_string \<Rightarrow> int \<Rightarrow> int \<Rightarrow> js_string" where
  "between s i j = take (nat (j - i)) (drop (nat i) s)"

text \<open>The texts of the chunks that are cut at the given ranges.\<close>

definition chunk_texts :: "js_string \<Rightarrow> Range list \<Rightarrow> js_string list" where
  "chunk_texts s rs = map (\<lambda>r. substring s (r_start r) (r_end r)) rs"

text \<open>
  Two neighbouring bounds either give a range that \<open>getRanges\<close> keeps, or they are clamped
  to the same offset of the text.
\<close>

definition crossing :: "int \<Rightarrow> int \<Rightarrow> int \<Rightarrow> bool" where
  "crossing len a b \<longleftrightarrow> a < b \<or> clamp len a = clamp len b"

text \<open>
  The covering-entity set of a range in the spec's words: every span that fully contains
  the range (\<open>span.start <= a && span.end >= b\<close>), in the order of the span list.
\<close>

definition covering_entities :: "Entity list \<Rightarrow> Range \<Rightarrow> Entity list" where
  "covering_entities ents r = filter (\<lambda>e. e_start e \<le> r_start r \<and> e_end e \<ge> r_end r) ents"

text \<open>
  The colour of a chunk in the spec's words, as a function of its covering entities: none
  gives no highlight, exactly one gives the palette entry at the hash of its label modulo
  the palette size, two or more give the one overlap colour.
\<close>

definition chunk_color :: "Entity list \<Rightarrow> js_string" where
  "chunk_color covering =
    (if length covering = 0 then ascii ''''
     else if length covering = 1
       then bg (colors ! nat (hashString_spec (e_label (hd covering)) mod 13))
     else ascii ''#00ff00'')"

section \<open>Library lemmas\<close>

lemma length_ascii [simp]: "length (ascii s) = length s"
  by (simp add: ascii_def)

lemma findIndex_from_found:
  "\<exists>x\<in>set xs. p x \<Longrightarrow> findIndex_from p xs i = i + int (length (takeWhile (\<lambda>x. \<not> p x) xs))"
  by (induction xs arbitrary: i) force+

lemma findIndex_from_none:
  "\<forall>x\<in>set xs. \<not> p x \<Longrightarrow> findIndex_from p xs i = -1"
  by (induction xs arbitrary: i) auto

lemma slice_prefix: "n \<le> length xs \<Longrightarrow> slice xs 0 (int n) = take n xs"
  by (simp add: slice_def slice_index_def)

lemma slice_from_nat: "slice_from xs (int n) = drop n xs"
  by (simp add: slice_from_def slice_index_def min_def)

lemma slice_minus_one: "slice xs 0 (-1) = butlast xs"
  by (cases "xs = []") (simp_all add: slice_def slice_index_def butlast_conv_take nat_diff_distrib')

section \<open>Entity commands\<close>

lemma same_entity_eq:
  "same_entity entity =
    (\<lambda>e. e_start e = e_start entity \<and> e_end e = e_end entity \<and> e_label e = e_label entity)"
  by (auto simp: same_entity_def fun_eq_iff)

text \<open>
  When some span matches, \<open>deleteEntity\<close> removes the first match and nothing else: the
  spans before it and the spans after it stay, in order.
\<close>

lemma deleteEntity_found:
  assumes "\<exists>e\<in>set (entities (props this)). same_entity entity e"
  shows "deleteEntity this entity =
    (text (props this),
     takeWhile (\<lambda>e. \<not> same_entity entity e) (entities (props this)) @
     tl (dropWhile (\<lambda>e. \<not> same_entity entity e) (entities (props this))))"
proof -
  let ?es = "entities (props this)"
  let ?n = "length (takeWhile (\<lambda>e. \<not> same_entity entity e) ?es)"
  have idx: "findIndex (same_entity entity) ?es = int ?n"
    using assms by (simp add: findIndex_def findIndex_from_found)
  have le: "?n \<le> length ?es" by (rule length_takeWhile_le)
  have t: "take ?n ?es = takeWhile (\<lambda>e. \<not> same_entity entity e) ?es"
    by (rule takeWhile_eq_take [symmetric])
  have d: "drop (Suc ?n) ?es = tl (dropWhile (\<lambda>e. \<not> same_entity entity e) ?es)"
    unfolding dropWhile_eq_drop by (simp add: drop_Suc tl_drop)
  have s: "slice_from ?es (int ?n + 1) = drop (Suc ?n) ?es"
    using slice_from_nat [of ?es "Suc ?n"] by (simp add: add.commute)
  show ?thesis
    using idx le t d s same_entity_eq [of entity]
    by (simp add: deleteEntity_def Let_def slice_prefix)
qed

text \<open>
  When no span matches, \<open>findIndex\<close> gives \<open>-1\<close>, and the two slices are the list without
  its last span and the whole list.
\<close>

lemma deleteEntity_not_found:
  assumes "\<forall>e\<in>set (entities (props this)). \<not> same_entity entity e"
  shows "deleteEntity this entity =
    (text (props this), butlast (entities (props this)) @ entities (props this))"
proof -
  have "findIndex (same_entity entity) (entities (props this)) = -1"
    using assms by (simp add: findIndex_def findIndex_from_none)
  then show ?thesis
    using slice_from_nat [of "entities (props this)" 0] same_entity_eq [of entity]
    by (simp add: deleteEntity_def Let_def slice_minus_one)
qed

text \<open>
  C2. \<open>deleteEntity\<close> removes the first span that matches the target and, when no span
  matches, is meant to leave the list as it is. At the list of the spans \<open>{0,1,"a"}\<close> and
  \<open>{2,3,"b"}\<close> with the target \<open>{4,6,"c"}\<close>, which matches neither, the list handed to
  \<open>onChange\<close> is not the input list: it has three spans, the first one twice.
\<close>

theorem deleteEntity_no_match_duplicates:
  "deleteEntity
     (component ''abcdef'' [span 0 1 ''a'', span 2 3 ''b''] 0 0 (textarea ''abcdef'' 0 0))
     (span 4 6 ''c'')
   = (ascii ''abcdef'', [span 0 1 ''a'', span 0 1 ''a'', span 2 3 ''b''])"
  by (simp add: deleteEntity_def findIndex_def slice_def slice_from_def slice_index_def
      span_def component_def textarea_def)

text \<open>
  C10. The entity commands do not modify the text: \<open>addEntity\<close> and \<open>deleteEntity\<close> both
  call \<open>onChange\<close> with the text of the props.
\<close>

theorem entity_commands_keep_text:
  "fst (addEntity this) = text (props this) \<and> fst (deleteEntity this entity) = text (props this)"
  by (simp add: addEntity_def deleteEntity_def Let_def)

section \<open>Reconciliation of the spans after a text change\<close>

lemmas fixture_defs = span_def textarea_def component_def

lemmas predicate_defs = entityIsBeforeRange_def entityIsBeyondRange_def rangeIsInsideEntity_def
  entityOverlapsWithRange_def entityIsInsideRange_def

lemmas textChange_eval = textChange_def originalRange_def textSizeDiff_def Let_def
  predicate_defs fixture_defs

text \<open>
  The spans \<open>textChange\<close> hands to \<open>onChange\<close>: the spans before the range, then the spans
  that contain the range with their end moved, then the spans beyond the range with both
  ends moved, all three without the spans that are empty afterwards.
\<close>

lemma snd_textChange:
  "snd (textChange this target) =
    filter (\<lambda>e. e_start e < e_end e)
      (filter (\<lambda>e. entityIsBeforeRange e (originalRange this target)) (entities (props this)) @
       map (\<lambda>e. e\<lparr>e_end := e_end e + textSizeDiff this target\<rparr>)
         (filter (\<lambda>e. rangeIsInsideEntity e (originalRange this target)) (entities (props this))) @
       map (\<lambda>e. e\<lparr>e_start := e_start e + textSizeDiff this target,
                   e_end := e_end e + textSizeDiff this target\<rparr>)
         (filter (\<lambda>e. entityIsBeyondRange e (originalRange this target)) (entities (props this))))"
  by (simp add: textChange_def Let_def)

lemma fst_textChange: "fst (textChange this target) = target_value target"
  by (simp add: textChange_def Let_def)

lemma originalRange_entities_update [simp]:
  "originalRange (this\<lparr>props := (props this)\<lparr>entities := es\<rparr>\<rparr>) target = originalRange this target"
  by (simp add: originalRange_def textSizeDiff_def)

lemma textSizeDiff_entities_update [simp]:
  "textSizeDiff (this\<lparr>props := (props this)\<lparr>entities := es\<rparr>\<rparr>) target = textSizeDiff this target"
  by (simp add: textSizeDiff_def)

lemma overlap_not_before_beyond:
  "entityOverlapsWithRange e r \<Longrightarrow> \<not> entityIsBeforeRange e r \<and> \<not> entityIsBeyondRange e r"
  by (auto simp: entityOverlapsWithRange_def entityIsBeforeRange_def entityIsBeyondRange_def)

text \<open>
  The filters for the unchanged and for the modified spans overlap: for a range with
  \<open>start \<le> end\<close>, a span passes both exactly when the range is empty and lies at the end
  of the span.
\<close>

lemma before_and_inside_iff:
  "r_start r \<le> r_end r \<Longrightarrow>
    entityIsBeforeRange e r \<and> rangeIsInsideEntity e r \<longleftrightarrow>
    e_start e < e_end e \<and> e_end e = r_start r \<and> r_end r = r_start r"
  by (auto simp: entityIsBeforeRange_def rangeIsInsideEntity_def)

text \<open>
  C1. In \<open>"hello world"\<close> with the span \<open>{0,5,"greeting"}\<close>, typing \<open>"!"\<close> at offset 5 (the
  remembered selection is \<open>[5,5)\<close>, the text grows by one) is meant to leave the span as the
  only span. The span is before the range, and the range \<open>[5,5)\<close> is also inside the span
  (\<open>0 \<le> 5\<close> and \<open>5 \<ge> 5\<close>): \<open>onChange\<close> receives the span twice, unchanged and with its end
  moved to 6.
\<close>

theorem textChange_insert_at_span_end_duplicates:
  "textChange (component ''hello world'' [span 0 5 ''greeting''] 5 5 (textarea ''hello! world'' 6 6))
     (textarea ''hello! world'' 6 6)
   = (ascii ''hello! world'', [span 0 5 ''greeting'', span 0 6 ''greeting''])"
  by (simp add: textChange_eval)

text \<open>
  C3, as the spec states it, fails: in \<open>"hello"\<close> with the span \<open>{0,5,"x"}\<close>, replacing the
  selection \<open>[2,5)\<close> by three other characters gives a range for which the span satisfies
  the overlapping-boundary condition (\<open>0 < 2\<close>, \<open>5 > 2\<close>, \<open>5 \<le> 5\<close>), and the span is in the
  output.
\<close>

theorem overlapping_span_survives:
  "entityOverlapsWithRange (span 0 5 ''x'')
     (originalRange (component ''hello'' [span 0 5 ''x''] 2 5 (textarea ''heavy'' 5 5))
        (textarea ''heavy'' 5 5))
   \<and> span 0 5 ''x'' \<in> set (snd (textChange
         (component ''hello'' [span 0 5 ''x''] 2 5 (textarea ''heavy'' 5 5))
         (textarea ''heavy'' 5 5)))"
  by (simp add: textChange_eval)

text \<open>
  C3, amended. A span that satisfies the overlapping-boundary condition and does not
  contain the whole range is counted among the broken entities and is dropped: the output
  is the output for the span list without it. (The span \<open>{2,5}\<close> with the range \<open>[1,4)\<close> is
  such a span.)
\<close>

theorem overlapping_span_dropped:
  assumes "entities (props this) = xs @ e # ys"
    and "entityOverlapsWithRange e (originalRange this target)"
    and "\<not> rangeIsInsideEntity e (originalRange this target)"
  shows "e \<in> set (brokenEntities this target) \<and>
    snd (textChange this target) =
      snd (textChange (this\<lparr>props := (props this)\<lparr>entities := xs @ ys\<rparr>\<rparr>) target)"
proof -
  have nb: "\<not> entityIsBeforeRange e (originalRange this target)"
    and ny: "\<not> entityIsBeyondRange e (originalRange this target)"
    using assms(2) overlap_not_before_beyond by blast+
  have "e \<in> set (brokenEntities this target)"
    using assms(1,2) by (simp add: brokenEntities_def)
  moreover have "snd (textChange this target) =
      snd (textChange (this\<lparr>props := (props this)\<lparr>entities := xs @ ys\<rparr>\<rparr>) target)"
    unfolding snd_textChange using assms(1,3) nb ny by simp
  ultimately show ?thesis by simp
qed

theorem overlapping_span_dropped_witness:
  "originalRange (component ''hello world'' [span 2 5 ''x''] 1 4 (textarea ''ho world'' 1 1))
     (textarea ''ho world'' 1 1) = \<lparr>r_start = 1, r_end = 4\<rparr>
   \<and> entityOverlapsWithRange (span 2 5 ''x'') \<lparr>r_start = 1, r_end = 4\<rparr>
   \<and> \<not> rangeIsInsideEntity (span 2 5 ''x'') \<lparr>r_start = 1, r_end = 4\<rparr>
   \<and> span 2 5 ''x'' \<in> set (brokenEntities
         (component ''hello world'' [span 2 5 ''x''] 1 4 (textarea ''ho world'' 1 1))
         (textarea ''ho world'' 1 1))
   \<and> snd (textChange (component ''hello world'' [span 2 5 ''x''] 1 4 (textarea ''ho world'' 1 1))
         (textarea ''ho world'' 1 1)) = []"
  using overlapping_span_dropped
    [of "component ''hello world'' [span 2 5 ''x''] 1 4 (textarea ''ho world'' 1 1)"
        "[]" "span 2 5 ''x''" "[]" "textarea ''ho world'' 1 1"]
  by (simp add: textChange_eval)

text \<open>
  C4. When every old span satisfies \<open>0 \<le> start < end \<le> oldText.length\<close>, the range of the
  change satisfies \<open>0 \<le> start \<le> end \<le> oldText.length\<close> and the length difference is at least
  minus the size of the range, every span of the output satisfies
  \<open>0 \<le> start < end \<le> newText.length\<close>.
\<close>

theorem textChange_preserves_valid_spans:
  assumes valid: "\<forall>e\<in>set (entities (props this)). valid_span (int (length (text (props this)))) e"
    and r0: "0 \<le> r_start (originalRange this target)"
    and r1: "r_start (originalRange this target) \<le> r_end (originalRange this target)"
    and r2: "r_end (originalRange this target) \<le> int (length (text (props this)))"
    and delta: "textSizeDiff this target
                  \<ge> - (r_end (originalRange this target) - r_start (originalRange this target))"
  shows "\<forall>e\<in>set (snd (textChange this target)). valid_span (int (length (target_value target))) e"
proof
  fix e' assume "e' \<in> set (snd (textChange this target))"
  then have pos: "e_start e' < e_end e'"
    and cases: "(e' \<in> set (entities (props this)) \<and> entityIsBeforeRange e' (originalRange this target))
      \<or> (\<exists>e\<in>set (entities (props this)). rangeIsInsideEntity e (originalRange this target)
            \<and> e' = e\<lparr>e_end := e_end e + textSizeDiff this target\<rparr>)
      \<or> (\<exists>e\<in>set (entities (props this)). entityIsBeyondRange e (originalRange this target)
            \<and> e' = e\<lparr>e_start := e_start e + textSizeDiff this target,
                       e_end := e_end e + textSizeDiff this target\<rparr>)"
    unfolding snd_textChange by auto
  have len: "int (length (target_value target))
      = int (length (text (props this))) + textSizeDiff this target"
    by (simp add: textSizeDiff_def Let_def)
  from cases show "valid_span (int (length (target_value target))) e'"
  proof (elim disjE conjE bexE)
    assume "e' \<in> set (entities (props this))" "entityIsBeforeRange e' (originalRange this target)"
    then show ?thesis
      using valid r0 r1 r2 delta len by (auto simp: valid_span_def entityIsBeforeRange_def)
  next
    fix e assume "e \<in> set (entities (props this))" "rangeIsInsideEntity e (originalRange this target)"
      "e' = e\<lparr>e_end := e_end e + textSizeDiff this target\<rparr>"
    then show ?thesis
      using valid pos len by (auto simp: valid_span_def)
  next
    fix e assume "e \<in> set (entities (props this))" "entityIsBeyondRange e (originalRange this target)"
      "e' = e\<lparr>e_start := e_start e + textSizeDiff this target,
                       e_end := e_end e + textSizeDiff this target\<rparr>"
    then show ?thesis
      using valid pos len r0 r1 r2 delta by (auto simp: valid_span_def entityIsBeyondRange_def)
  qed
qed

theorem textChange_preserves_valid_spans_witness:
  "list_all (valid_span 11) [span 0 5 ''a'', span 3 8 ''b'', span 8 11 ''c'']
   \<and> originalRange
        (component ''hello world'' [span 0 5 ''a'', span 3 8 ''b'', span 8 11 ''c''] 6 7
          (textarea ''hello brave old world'' 17 17))
        (textarea ''hello brave old world'' 17 17) = \<lparr>r_start = 6, r_end = 7\<rparr>
   \<and> textSizeDiff
        (component ''hello world'' [span 0 5 ''a'', span 3 8 ''b'', span 8 11 ''c''] 6 7
          (textarea ''hello brave old world'' 17 17))
        (textarea ''hello brave old world'' 17 17) = 10
   \<and> snd (textChange
        (component ''hello world'' [span 0 5 ''a'', span 3 8 ''b'', span 8 11 ''c''] 6 7
          (textarea ''hello brave old world'' 17 17))
        (textarea ''hello brave old world'' 17 17))
      = [span 0 5 ''a'', span 3 18 ''b'', span 18 21 ''c'']
   \<and> list_all (valid_span 21) [span 0 5 ''a'', span 3 18 ''b'', span 18 21 ''c'']"
  using textChange_preserves_valid_spans
    [of "component ''hello world'' [span 0 5 ''a'', span 3 8 ''b'', span 8 11 ''c''] 6 7
          (textarea ''hello brave old world'' 17 17)"
        "textarea ''hello brave old world'' 17 17"]
  by (simp add: textChange_eval valid_span_def)

text \<open>
  C7. A span that contains the whole range of the change (\<open>e.start \<le> r.start\<close> and
  \<open>e.end \<ge> r.end\<close>) is in the output with its start unchanged and its end moved by the
  length difference, provided that it is not empty afterwards. Deleting the first
  character of \<open>"hello"\<close> with the span \<open>{0,5,"x"}\<close> gives the range \<open>[0,1)\<close>, the difference
  \<open>-1\<close> and the one span \<open>{0,4,"x"}\<close>.
\<close>

theorem range_inside_span_resized:
  "(e \<in> set (entities (props this)) \<longrightarrow> rangeIsInsideEntity e (originalRange this target) \<longrightarrow>
      e_start e < e_end e + textSizeDiff this target \<longrightarrow>
      e\<lparr>e_end := e_end e + textSizeDiff this target\<rparr> \<in> set (snd (textChange this target)))
   \<and> originalRange (component ''hello'' [span 0 5 ''x''] 1 1 (textarea ''ello'' 0 0))
        (textarea ''ello'' 0 0) = \<lparr>r_start = 0, r_end = 1\<rparr>
   \<and> textSizeDiff (component ''hello'' [span 0 5 ''x''] 1 1 (textarea ''ello'' 0 0))
        (textarea ''ello'' 0 0) = -1
   \<and> textChange (component ''hello'' [span 0 5 ''x''] 1 1 (textarea ''ello'' 0 0))
        (textarea ''ello'' 0 0) = (ascii ''ello'', [span 0 4 ''x''])"
proof -
  have "e\<lparr>e_end := e_end e + textSizeDiff this target\<rparr> \<in> set (snd (textChange this target))"
    if "e \<in> set (entities (props this))" "rangeIsInsideEntity e (originalRange this target)"
      "e_start e < e_end e + textSizeDiff this target"
    unfolding snd_textChange using that by force
  then show ?thesis by (simp add: textChange_eval)
qed

theorem range_inside_span_resized_witness:
  "span 3 8 ''b'' \<in> set [span 0 5 ''a'', span 3 8 ''b'', span 8 11 ''c'']
   \<and> rangeIsInsideEntity (span 3 8 ''b'') \<lparr>r_start = 6, r_end = 7\<rparr>
   \<and> e_start (span 3 8 ''b'') < e_end (span 3 8 ''b'') + 10
   \<and> span 3 18 ''b'' \<in> set (snd (textChange
        (component ''hello world'' [span 0 5 ''a'', span 3 8 ''b'', span 8 11 ''c''] 6 7
          (textarea ''hello brave old world'' 17 17))
        (textarea ''hello brave old world'' 17 17)))"
  using range_inside_span_resized
    [of "span 3 8 ''b''"
        "component ''hello world'' [span 0 5 ''a'', span 3 8 ''b'', span 8 11 ''c''] 6 7
          (textarea ''hello brave old world'' 17 17)"
        "textarea ''hello brave old world'' 17 17"]
  by (simp add: textChange_eval)

text \<open>
  C8, as the spec states it, fails for a span that starts exactly at the insertion point,
  which lies entirely after it: in \<open>"hello world"\<close> with the span \<open>{5,8,"x"}\<close>, typing \<open>"!"\<close>
  at offset 5 gives the range \<open>[5,5)\<close> and the difference \<open>1\<close>; the span contains the empty
  range (\<open>5 \<le> 5\<close>, \<open>8 \<ge> 5\<close>) and is not beyond it (\<open>5 > 5\<close> fails), so it is kept with its start
  unchanged and its end moved, as \<open>{5,9,"x"}\<close>, and the shifted span \<open>{6,9,"x"}\<close> is not in the
  output.
\<close>

theorem span_at_insertion_point_grows:
  "originalRange (component ''hello world'' [span 5 8 ''x''] 5 5 (textarea ''hello! world'' 6 6))
      (textarea ''hello! world'' 6 6) = \<lparr>r_start = 5, r_end = 5\<rparr>
   \<and> textSizeDiff (component ''hello world'' [span 5 8 ''x''] 5 5 (textarea ''hello! world'' 6 6))
      (textarea ''hello! world'' 6 6) = 1
   \<and> snd (textChange (component ''hello world'' [span 5 8 ''x''] 5 5 (textarea ''hello! world'' 6 6))
      (textarea ''hello! world'' 6 6)) = [span 5 9 ''x'']
   \<and> span 6 9 ''x'' \<notin> set (snd (textChange
        (component ''hello world'' [span 5 8 ''x''] 5 5 (textarea ''hello! world'' 6 6))
        (textarea ''hello! world'' 6 6)))"
  by (simp add: textChange_eval)

text \<open>
  C8, amended. After a pure insertion of \<open>k\<close> characters at the point \<open>p\<close> (the remembered
  selection is \<open>[p,p)\<close> and the text grows by \<open>k\<close>) the range of the change is \<open>[p,p)\<close>, and
  every span that starts strictly after \<open>p\<close> is in the output with its start and its end
  moved by \<open>k\<close>. After every edit, every span that ends at or before the start of the range
  is in the output as it was.
\<close>

theorem spans_after_shift_spans_before_stay:
  "(selectionStart this = p \<longrightarrow> selectionEnd this = p \<longrightarrow> textSizeDiff this target = k \<longrightarrow>
      0 \<le> k \<longrightarrow> e \<in> set (entities (props this)) \<longrightarrow> p < e_start e \<longrightarrow> e_start e < e_end e \<longrightarrow>
      originalRange this target = \<lparr>r_start = p, r_end = p\<rparr> \<and>
      e\<lparr>e_start := e_start e + k, e_end := e_end e + k\<rparr> \<in> set (snd (textChange this target)))
   \<and> (e \<in> set (entities (props this)) \<longrightarrow> e_end e \<le> r_start (originalRange this target) \<longrightarrow>
        e_start e < e_end e \<longrightarrow> e \<in> set (snd (textChange this target)))"
proof -
  have a: "originalRange this target = \<lparr>r_start = p, r_end = p\<rparr>"
    if "selectionStart this = p" "selectionEnd this = p" "textSizeDiff this target = k" "0 \<le> k"
    using that by (simp add: originalRange_def Let_def)
  have b: "e\<lparr>e_start := e_start e + k, e_end := e_end e + k\<rparr> \<in> set (snd (textChange this target))"
    if "originalRange this target = \<lparr>r_start = p, r_end = p\<rparr>" "textSizeDiff this target = k"
      "e \<in> set (entities (props this))" "p < e_start e" "e_start e < e_end e"
    unfolding snd_textChange using that by (force simp: entityIsBeyondRange_def)
  have c: "e \<in> set (snd (textChange this target))"
    if "e \<in> set (entities (props this))" "e_end e \<le> r_start (originalRange this target)"
        "e_start e < e_end e"
    unfolding snd_textChange using that by (simp add: entityIsBeforeRange_def)
  show ?thesis using a b c by blast
qed

theorem spans_after_shift_spans_before_stay_witness:
  "textSizeDiff (component ''hello world'' [span 0 4 ''a'', span 6 11 ''b''] 5 5
        (textarea ''hello!! world'' 7 7)) (textarea ''hello!! world'' 7 7) = 2
   \<and> (5::int) < e_start (span 6 11 ''b'')
   \<and> e_end (span 0 4 ''a'') \<le> (5::int)
   \<and> originalRange (component ''hello world'' [span 0 4 ''a'', span 6 11 ''b''] 5 5
        (textarea ''hello!! world'' 7 7)) (textarea ''hello!! world'' 7 7) = \<lparr>r_start = 5, r_end = 5\<rparr>
   \<and> span 8 13 ''b'' \<in> set (snd (textChange
        (component ''hello world'' [span 0 4 ''a'', span 6 11 ''b''] 5 5
          (textarea ''hello!! world'' 7 7)) (textarea ''hello!! world'' 7 7)))
   \<and> span 0 4 ''a'' \<in> set (snd (textChange
        (component ''hello world'' [span 0 4 ''a'', span 6 11 ''b''] 5 5
          (textarea ''hello!! world'' 7 7)) (textarea ''hello!! world'' 7 7)))"
  using
    spans_after_shift_spans_before_stay
      [of "component ''hello world'' [span 0 4 ''a'', span 6 11 ''b''] 5 5
            (textarea ''hello!! world'' 7 7)"
          5 "textarea ''hello!! world'' 7 7" 2 "span 6 11 ''b''"]
    spans_after_shift_spans_before_stay
      [of "component ''hello world'' [span 0 4 ''a'', span 6 11 ''b''] 5 5
            (textarea ''hello!! world'' 7 7)"
          5 "textarea ''hello!! world'' 7 7" 2 "span 0 4 ''a''"]
  by (simp add: textChange_eval)

section \<open>The colour of a chunk\<close>

lemma toInt32_sint: "toInt32 x = sint (word_of_int x :: 32 word)"
  by (simp add: toInt32_def sint_sbintrunc')

lemma toInt32_of_sint [simp]: "toInt32 (sint (w :: 32 word)) = sint w"
  by (simp add: toInt32_sint)

lemma js_shl_sint: "js_shl (sint (w :: 32 word)) 5 = sint (w * 32)"
proof -
  have "(word_of_int (push_bit 5 (sint w)) :: 32 word) = w * 32"
    by (simp add: push_bit_eq_mult)
  then show ?thesis
    by (simp add: js_shl_def toInt32_sint)
qed

lemma js_and_same: "js_and x x = toInt32 x"
  by (simp add: js_and_def toInt32_sint)

text \<open>One round of the loop of \<open>hashString\<close> is one round of the 32-bit accumulation.\<close>

lemma hash_step_sint:
  "hash_step (sint (w :: 32 word)) c = sint (w * 31 + ucast c)"
proof -
  have eq: "(word_of_int (sint (w * 32) - sint w + uint c) :: 32 word) = w * 31 + ucast c"
    by simp
  have "hash_step (sint w) c = sint (word_of_int (sint (w * 32) - sint w + uint c) :: 32 word)"
    unfolding hash_step_def Let_def js_shl_sint js_and_same charCodeAt_def toInt32_sint ..
  then show ?thesis
    by (simp only: eq)
qed

lemma foldl_hash_step:
  "foldl hash_step (sint (w :: 32 word)) str = sint (foldl (\<lambda>hash c. hash * 31 + ucast c) w str)"
  by (induction str arbitrary: w) (simp_all add: hash_step_sint)

lemma hashString_eq_spec: "hashString str = hashString_spec str"
  using foldl_hash_step [of 0 str]
  by (simp add: hashString_def hashString_spec_def Let_def)

lemma hashString_nonneg: "0 \<le> hashString str"
  by (simp add: hashString_eq_spec hashString_spec_def)

lemma js_rem_nonneg: "0 \<le> a \<Longrightarrow> 0 < b \<Longrightarrow> js_rem a b = a mod b"
  by (cases "a = 0") (simp_all add: js_rem_def)

lemma length_colors: "length colors = 13"
  by (simp add: colors_def)

lemma color_index_in_bounds:
  "0 \<le> js_rem (hashString s) (int (length colors)) \<and>
   js_rem (hashString s) (int (length colors)) < int (length colors)"
  by (simp add: js_rem_nonneg hashString_nonneg length_colors)

lemma getTextNodeColor_one:
  "getTextNodeColor [e] = Inr (bg (colors ! nat (hashString (e_label e) mod 13)))"
  using color_index_in_bounds [of "e_label e"]
  by (simp add: getTextNodeColor_def js_index_def js_rem_nonneg hashString_nonneg length_colors)

lemma getTextNodeColor_many: "2 \<le> length es \<Longrightarrow> getTextNodeColor es = Inr mixColorsMock"
proof (cases es)
  case Nil
  assume "2 \<le> length es"
  with Nil show ?thesis by simp
next
  case (Cons a as)
  assume "2 \<le> length es"
  with Cons obtain b bs where "as = b # bs" by (cases as) auto
  with Cons show ?thesis by (simp add: getTextNodeColor_def)
qed

lemma palette_not_overlap: "list_all (\<lambda>c. bg c \<noteq> mixColorsMock) colors"
  by (simp add: colors_def mixColorsMock_def ascii_def)

text \<open>\<open>getTextNodeColor\<close> never throws: the index into the palette is always inside it.\<close>

lemma getTextNodeColor_total: "getTextNodeColor es = Inr (projr (getTextNodeColor es))"
proof (cases es)
  case Nil
  then show ?thesis by (simp add: getTextNodeColor_def)
next
  case (Cons a as)
  show ?thesis
  proof (cases as)
    case Nil
    with Cons show ?thesis by (simp add: getTextNodeColor_one)
  next
    case (Cons b bs)
    with \<open>es = a # as\<close> show ?thesis by (simp add: getTextNodeColor_many)
  qed
qed

section \<open>Segmentation of the text\<close>

lemma getRanges_neighbours:
  "2 \<le> length bs \<Longrightarrow>
    getRanges bs acc = Inr (filter (\<lambda>r. r_start r < r_end r) (acc @ neighbours bs))"
  by (induction bs acc rule: getRanges.induct) simp_all

text \<open>\<open>getTextNodes\<close> calls \<open>getRanges\<close> with at least two bounds, so it returns.\<close>

lemma ranges_eq:
  "ranges txt ents =
    Inr (filter (\<lambda>r. r_start r < r_end r) (neighbours (0 # bounds ents @ [int (length txt)])))"
  by (simp add: ranges_def getRanges_neighbours)

lemma map_throwing_total:
  assumes "\<And>x. f x = Inr (g x)"
  shows "map_throwing f xs = Inr (map g xs)"
  by (induction xs) (simp_all add: assms)

lemma getTextNodes_eq:
  "getTextNodes txt ents =
    Inr (map (\<lambda>r. \<lparr>node_text = substring txt (r_start r) (r_end r),
                   node_color = projr (getTextNodeColor (rangeBelongsToEntities ents r))\<rparr>)
          (filter (\<lambda>r. r_start r < r_end r) (neighbours (0 # bounds ents @ [int (length txt)]))))"
proof -
  have "map_throwing (\<lambda>range.
           let entitiesInRange = rangeBelongsToEntities ents range
           in case getTextNodeColor entitiesInRange of
                Inl err \<Rightarrow> Inl err
              | Inr color \<Rightarrow>
                  Inr \<lparr>node_text = substring txt (r_start range) (r_end range),
                       node_color = color\<rparr>) rs
     = Inr (map (\<lambda>r. \<lparr>node_text = substring txt (r_start r) (r_end r),
                   node_color = projr (getTextNodeColor (rangeBelongsToEntities ents r))\<rparr>) rs)" for rs
  proof (rule map_throwing_total)
    fix x
    show "(let entitiesInRange = rangeBelongsToEntities ents x
           in case getTextNodeColor entitiesInRange of
                Inl err \<Rightarrow> Inl err
              | Inr color \<Rightarrow>
                  Inr \<lparr>node_text = substring txt (r_start x) (r_end x),
                       node_color = color\<rparr>)
        = Inr \<lparr>node_text = substring txt (r_start x) (r_end x),
                   node_color = projr (getTextNodeColor (rangeBelongsToEntities ents x))\<rparr>"
      by (subst getTextNodeColor_total) (simp add: Let_def)
  qed
  then show ?thesis
    by (simp add: getTextNodes_def ranges_eq)
qed

subsection \<open>The chunks give back the text\<close>

lemma substring_between:
  "a < b \<Longrightarrow> substring s a b = between s (clamp (int (length s)) a) (clamp (int (length s)) b)"
  by (simp add: substring_def between_def clamp_def Let_def min_def max_def)

lemma clamp_mono: "a \<le> b \<Longrightarrow> clamp len a \<le> clamp len b"
  by (simp add: clamp_def min_def max_def)

lemma clamp_nonneg: "0 \<le> len \<Longrightarrow> 0 \<le> clamp len a"
  by (simp add: clamp_def min_def max_def)

lemma between_append:
  assumes "0 \<le> i" "i \<le> j" "j \<le> k"
  shows "between s i j @ between s j k = between s i k"
proof -
  have "nat (k - i) = nat (j - i) + nat (k - j)" using assms by simp
  moreover have "nat (j - i) + nat i = nat j" using assms by simp
  then have "drop (nat (j - i)) (drop (nat i) s) = drop (nat j) s"
    by (simp only: drop_drop)
  ultimately show ?thesis
    by (simp add: between_def take_add)
qed

lemma between_empty [simp]: "between s i i = []"
  by (simp add: between_def)

text \<open>
  Along a list of bounds in which neighbours either ascend or are clamped to the same
  offset, the texts of the kept ranges join to the text between the first and the last
  bound.
\<close>

lemma chunk_texts_telescope:
  assumes "bs \<noteq> []" "successively (crossing (int (length s))) bs"
  shows "concat (chunk_texts s (filter (\<lambda>r. r_start r < r_end r) (neighbours bs)))
           = between s (clamp (int (length s)) (hd bs)) (clamp (int (length s)) (last bs))
         \<and> clamp (int (length s)) (hd bs) \<le> clamp (int (length s)) (last bs)"
  using assms
proof (induction bs rule: neighbours.induct)
  case (1 b0 b1 bs)
  let ?c = "clamp (int (length s))"
  from "1.prems" have step: "crossing (int (length s)) b0 b1"
    and rest: "successively (crossing (int (length s))) (b1 # bs)" by simp_all
  from "1.IH" rest
  have ih: "concat (chunk_texts s (filter (\<lambda>r. r_start r < r_end r) (neighbours (b1 # bs))))
           = between s (?c b1) (?c (last (b1 # bs)))"
    and le: "?c b1 \<le> ?c (last (b1 # bs))" by simp_all
  have c01: "?c b0 \<le> ?c b1"
    using step by (auto simp: crossing_def intro: clamp_mono)
  have c0: "0 \<le> ?c b0" by (simp add: clamp_nonneg)
  show ?case
  proof (cases "b0 < b1")
    case True
    then show ?thesis
      using ih le c01 c0 between_append [of "?c b0" "?c b1" "?c (last (b1 # bs))" s]
      by (simp add: chunk_texts_def substring_between)
  next
    case False
    with step have "?c b0 = ?c b1" by (simp add: crossing_def)
    with False show ?thesis
      using ih le by (simp add: chunk_texts_def)
  qed
qed (simp_all add: chunk_texts_def)

lemma sorted_bounds: "sorted (bounds ents)"
  by (simp add: bounds_def)

lemma crossing_bounds:
  "successively (crossing (int (length txt))) (0 # bounds ents @ [int (length txt)])"
proof -
  let ?len = "int (length txt)"
  have mid: "successively (crossing ?len) (bounds ents)"
    by (rule successively_mono [OF successively_if_sorted_wrt [OF sorted_bounds]])
       (auto simp: crossing_def less_le)
  show ?thesis
  proof (cases "bounds ents = []")
    case True
    then show ?thesis by (simp add: crossing_def clamp_def)
  next
    case False
    have first: "crossing ?len 0 (hd (bounds ents))"
      by (auto simp: crossing_def clamp_def)
    have final: "crossing ?len (last (bounds ents)) ?len"
      by (auto simp: crossing_def clamp_def)
    show ?thesis
      using False mid first final
      by (simp add: successively_Cons successively_append_iff)
  qed
qed

text \<open>
  C5. For every text and every list of spans (the empty list too, and spans of any
  offsets), \<open>getTextNodes\<close> returns, and the texts of its chunks, joined in their order,
  are the text.
\<close>

theorem getTextNodes_concat_is_text:
  "\<exists>nodes. getTextNodes txt ents = Inr nodes \<and> concat (map node_text nodes) = txt"
proof -
  let ?rs = "filter (\<lambda>r. r_start r < r_end r) (neighbours (0 # bounds ents @ [int (length txt)]))"
  have "concat (chunk_texts txt ?rs)
      = between txt (clamp (int (length txt)) 0) (clamp (int (length txt)) (int (length txt)))"
    using chunk_texts_telescope [of "0 # bounds ents @ [int (length txt)]" "txt"]
      crossing_bounds [of "txt" ents]
    by simp
  then have "concat (chunk_texts txt ?rs) = txt"
    by (simp add: between_def clamp_def)
  then show ?thesis
    by (simp add: getTextNodes_eq chunk_texts_def comp_def)
qed

subsection \<open>The chunks are disjoint and ascend\<close>

lemma neighbours_start_mem:
  "r \<in> set (neighbours bs) \<Longrightarrow> r_start r \<in> set bs \<and> r_end r \<in> set (tl bs)"
  by (induction bs rule: neighbours.induct) auto

lemma sorted_neighbours:
  "sorted bs \<Longrightarrow> sorted_wrt (\<lambda>r s. r_end r \<le> r_start s) (neighbours bs)"
proof (induction bs rule: neighbours.induct)
  case (1 b0 b1 bs)
  have "b1 \<le> r_start s" if "s \<in> set (neighbours (b1 # bs))" for s
    using neighbours_start_mem [OF that] "1.prems" by auto
  with 1 show ?case by simp
qed simp_all

lemma set_bounds: "set (bounds ents) = (\<Union>e\<in>set ents. {e_start e, e_end e})"
  by (auto simp: bounds_def)

lemma sorted_all_bounds:
  assumes "\<forall>e\<in>set ents. valid_span (int (length txt)) e"
  shows "sorted (0 # bounds ents @ [int (length txt)])"
proof -
  have "0 \<le> b \<and> b \<le> int (length txt)" if "b \<in> set (bounds ents)" for b
    using that assms unfolding set_bounds by (auto simp: valid_span_def)
  then show ?thesis
    by (auto simp: sorted_append sorted_bounds)
qed

text \<open>
  C6. When every span satisfies \<open>0 \<le> start < end \<le> text.length\<close>, the ranges at which
  \<open>getTextNodes\<close> cuts the text (the chunks are the substrings at these ranges, in this
  order) each have \<open>end > start\<close>, every range starts at or after the end of every earlier
  one, and any two of them are disjoint.
\<close>

theorem ranges_disjoint_ascending:
  assumes "\<forall>e\<in>set ents. valid_span (int (length txt)) e"
  shows "\<exists>rs nodes. ranges txt ents = Inr rs
    \<and> getTextNodes txt ents = Inr nodes \<and> map node_text nodes = chunk_texts txt rs
    \<and> (\<forall>r\<in>set rs. r_start r < r_end r)
    \<and> (\<forall>i j. i < j \<and> j < length rs \<longrightarrow> r_end (rs ! i) \<le> r_start (rs ! j))
    \<and> (\<forall>i j. i < length rs \<and> j < length rs \<and> i \<noteq> j \<longrightarrow>
          {r_start (rs ! i)..<r_end (rs ! i)} \<inter> {r_start (rs ! j)..<r_end (rs ! j)} = {})"
proof -
  let ?rs = "filter (\<lambda>r. r_start r < r_end r) (neighbours (0 # bounds ents @ [int (length txt)]))"
  have sw: "sorted_wrt (\<lambda>r s. r_end r \<le> r_start s) ?rs"
    by (rule sorted_wrt_filter [OF sorted_neighbours [OF sorted_all_bounds [OF assms]]])
  have asc: "r_end (?rs ! i) \<le> r_start (?rs ! j)" if "i < j" "j < length ?rs" for i j
    using sorted_wrt_nth_less [OF sw that] .
  have disj: "{r_start (?rs ! i)..<r_end (?rs ! i)} \<inter> {r_start (?rs ! j)..<r_end (?rs ! j)} = {}"
    if "i < length ?rs" "j < length ?rs" "i \<noteq> j" for i j
  proof (cases "i < j")
    case True
    with asc [of i j] that show ?thesis by auto
  next
    case False
    with that have "j < i" by simp
    with asc [of j i] that show ?thesis by auto
  qed
  have pos: "\<forall>r\<in>set ?rs. r_start r < r_end r" by simp
  have nodes: "map node_text (map (\<lambda>r. \<lparr>node_text = substring txt (r_start r) (r_end r),
                   node_color = projr (getTextNodeColor (rangeBelongsToEntities ents r))\<rparr>) ?rs)
       = chunk_texts txt ?rs"
    by (simp add: chunk_texts_def comp_def)
  show ?thesis
    unfolding ranges_eq getTextNodes_eq using asc disj pos nodes by blast
qed

theorem ranges_disjoint_ascending_witness:
  "list_all (valid_span 8) [span 0 5 ''A'', span 2 7 ''B'']
   \<and> ranges (ascii ''abcdefgh'') [span 0 5 ''A'', span 2 7 ''B'']
       = Inr [\<lparr>r_start = 0, r_end = 2\<rparr>, \<lparr>r_start = 2, r_end = 5\<rparr>,
              \<lparr>r_start = 5, r_end = 7\<rparr>, \<lparr>r_start = 7, r_end = 8\<rparr>]"
  using ranges_disjoint_ascending [of "[span 0 5 ''A'', span 2 7 ''B'']" "ascii ''abcdefgh''"]
  by (simp add: ranges_def bounds_def span_def valid_span_def)

subsection \<open>The colour of every chunk\<close>

text \<open>The entities \<open>getTextNodes\<close> hands to \<open>getTextNodeColor\<close> are those that cover the range.\<close>

lemma rangeBelongsToEntities_covering:
  "rangeBelongsToEntities ents r = covering_entities ents r"
  by (simp add: rangeBelongsToEntities_def covering_entities_def rangeIsInsideEntity_def)

lemma getTextNodeColor_chunk_color: "getTextNodeColor es = Inr (chunk_color es)"
proof (cases es)
  case Nil
  then show ?thesis by (simp add: getTextNodeColor_def chunk_color_def)
next
  case (Cons a as)
  show ?thesis
  proof (cases as)
    case Nil
    with Cons show ?thesis
      by (simp add: getTextNodeColor_one chunk_color_def hashString_eq_spec)
  next
    case (Cons b bs)
    with \<open>es = a # as\<close> show ?thesis
      by (simp add: getTextNodeColor_many chunk_color_def mixColorsMock_def)
  qed
qed

lemma hashString_spec_A: "hashString_spec (ascii ''A'') = 65"
  by (simp add: hashString_spec_def ascii_def)

lemma hashString_spec_B: "hashString_spec (ascii ''B'') = 66"
  by (simp add: hashString_spec_def ascii_def)

lemma colors_0: "bg (colors ! 0) = ascii ''#0074d9''"
  by (simp add: colors_def)

lemma colors_1: "bg (colors ! 1) = ascii ''#001f3f''" "bg (colors ! Suc 0) = ascii ''#001f3f''"
  by (simp_all add: colors_def)

text \<open>
  C9. The colour of every chunk is a function of the entities that cover it: for every
  text and span list, \<open>getTextNodes\<close> returns one chunk for each of its ranges, in order,
  and the colour of the chunk is \<open>chunk_color\<close> of the spans that fully contain the range.
  No covering entity: the empty colour. One: the palette entry at the index
  \<open>hashString(label) % 13\<close>, where \<open>hashString\<close> is the 32-bit signed accumulation
  \<open>hash = hash * 31 + charCode\<close> folded to a non-negative value, so that the index is inside
  the palette of 13 entries. Two or more: the one overlap colour \<open>#00ff00\<close>, which is no
  colour of the palette.
\<close>

theorem getTextNodeColor_policy:
  "getTextNodeColor [] = Inr (ascii '''')
   \<and> getTextNodeColor [e] = Inr (bg (colors ! nat (hashString (e_label e) mod 13)))
   \<and> hashString (e_label e) = hashString_spec (e_label e)
   \<and> 0 \<le> hashString (e_label e)
   \<and> nat (hashString (e_label e) mod 13) < length colors
   \<and> length colors = 13
   \<and> (2 \<le> length es \<longrightarrow> getTextNodeColor es = Inr (ascii ''#00ff00''))
   \<and> list_all (\<lambda>c. bg c \<noteq> ascii ''#00ff00'') colors
   \<and> (\<exists>rs. ranges txt ents = Inr rs
        \<and> getTextNodes txt ents =
            Inr (map (\<lambda>r. \<lparr>node_text = substring txt (r_start r) (r_end r),
                           node_color = chunk_color (covering_entities ents r)\<rparr>) rs))"
proof -
  have "nat (hashString (e_label e) mod 13) < length colors"
    using hashString_nonneg [of "e_label e"] by (simp add: length_colors nat_less_iff)
  moreover have "getTextNodeColor [] = Inr (ascii '''')"
    by (simp add: getTextNodeColor_def)
  moreover have "2 \<le> length es \<longrightarrow> getTextNodeColor es = Inr (ascii ''#00ff00'')"
    using getTextNodeColor_many [of es] by (simp add: mixColorsMock_def)
  moreover have "list_all (\<lambda>c. bg c \<noteq> ascii ''#00ff00'') colors"
    using palette_not_overlap by (simp add: mixColorsMock_def)
  moreover have "\<exists>rs. ranges txt ents = Inr rs
        \<and> getTextNodes txt ents =
            Inr (map (\<lambda>r. \<lparr>node_text = substring txt (r_start r) (r_end r),
                           node_color = chunk_color (covering_entities ents r)\<rparr>) rs)"
    by (simp add: ranges_eq getTextNodes_eq getTextNodeColor_chunk_color
        rangeBelongsToEntities_covering)
  ultimately show ?thesis
    using getTextNodeColor_one [of e] hashString_eq_spec [of "e_label e"]
      hashString_nonneg [of "e_label e"] length_colors
    by simp
qed

text \<open>
  The text \<open>"abcdefgh"\<close> with the spans \<open>{0,5,"A"}\<close> and \<open>{2,7,"B"}\<close>: the chunk \<open>"cde"\<close> at
  offset 3 is covered by both spans and has the overlap colour, \<open>"ab"\<close> and \<open>"fg"\<close> have the
  palette colours of \<open>"A"\<close> and \<open>"B"\<close>, and \<open>"h"\<close>, which no span covers, has no colour.
\<close>

theorem getTextNodeColor_policy_witness:
  "2 \<le> length [span 0 5 ''A'', span 2 7 ''B'']
   \<and> getTextNodeColor [span 0 5 ''A'', span 2 7 ''B''] = Inr (ascii ''#00ff00'')
   \<and> hashString (ascii ''A'') = 65
   \<and> getTextNodeColor [span 0 5 ''A''] = Inr (ascii ''#0074d9'')
   \<and> covering_entities [span 0 5 ''A'', span 2 7 ''B''] \<lparr>r_start = 2, r_end = 5\<rparr>
        = [span 0 5 ''A'', span 2 7 ''B'']
   \<and> covering_entities [span 0 5 ''A'', span 2 7 ''B''] \<lparr>r_start = 7, r_end = 8\<rparr> = []
   \<and> getTextNodes (ascii ''abcdefgh'') [span 0 5 ''A'', span 2 7 ''B'']
        = Inr [\<lparr>node_text = ascii ''ab'', node_color = ascii ''#0074d9''\<rparr>,
               \<lparr>node_text = ascii ''cde'', node_color = ascii ''#00ff00''\<rparr>,
               \<lparr>node_text = ascii ''fg'', node_color = ascii ''#001f3f''\<rparr>,
               \<lparr>node_text = ascii ''h'', node_color = ascii ''''\<rparr>]"
proof -
  have r: "ranges (ascii ''abcdefgh'') [span 0 5 ''A'', span 2 7 ''B'']
       = Inr [\<lparr>r_start = 0, r_end = 2\<rparr>, \<lparr>r_start = 2, r_end = 5\<rparr>,
              \<lparr>r_start = 5, r_end = 7\<rparr>, \<lparr>r_start = 7, r_end = 8\<rparr>]"
    by (simp add: ranges_def bounds_def span_def)
  have c1: "chunk_color (covering_entities [span 0 5 ''A'', span 2 7 ''B''] \<lparr>r_start = 0, r_end = 2\<rparr>)
        = ascii ''#0074d9''"
    by (simp add: covering_entities_def chunk_color_def span_def hashString_spec_A colors_0)
  have c2: "chunk_color [span 0 5 ''A'', span 2 7 ''B''] = ascii ''#00ff00''"
    by (simp add: chunk_color_def)
  have c3: "chunk_color (covering_entities [span 0 5 ''A'', span 2 7 ''B''] \<lparr>r_start = 5, r_end = 7\<rparr>)
        = ascii ''#001f3f''"
    by (simp add: covering_entities_def chunk_color_def span_def hashString_spec_B colors_1)
  have c4: "chunk_color [] = ascii []"
    by (simp add: chunk_color_def)
  have s: "substring (ascii ''abcdefgh'') 0 2 = ascii ''ab''"
    "substring (ascii ''abcdefgh'') 2 5 = ascii ''cde''"
    "substring (ascii ''abcdefgh'') 5 7 = ascii ''fg''"
    "substring (ascii ''abcdefgh'') 7 8 = ascii ''h''"
    by (simp_all add: substring_def ascii_def)
  have h: "hashString (ascii ''A'') = 65"
    by (simp add: hashString_eq_spec hashString_spec_A)
  have cv: "covering_entities [span 0 5 ''A'', span 2 7 ''B''] \<lparr>r_start = 2, r_end = 5\<rparr>
        = [span 0 5 ''A'', span 2 7 ''B'']"
    "covering_entities [span 0 5 ''A'', span 2 7 ''B''] \<lparr>r_start = 7, r_end = 8\<rparr> = []"
    by (simp_all add: covering_entities_def span_def)
  have e: "e_label (span 0 5 ''A'') = ascii ''A''" by (simp add: span_def)
  show ?thesis
    using getTextNodeColor_policy
      [of "span 0 5 ''A''" "[span 0 5 ''A'', span 2 7 ''B'']" "ascii ''abcdefgh''"
          "[span 0 5 ''A'', span 2 7 ''B'']"]
    by (simp add: r c1 c2 c3 c4 s h cv e colors_0)
qed

end
